theory Spec2Isabelle
  imports Complex_Main "HOL-Library.State_Monad"
begin

section \<open>The clock's data\<close>

text \<open>
  The widget of \<^verbatim>\<open>clock.js\<close> computes with JavaScript numbers. They are
  modelled as the real numbers they approximate: \<^verbatim>\<open>Math.PI\<close> is \<open>pi\<close>,
  \<^verbatim>\<open>Math.log\<close>, \<^verbatim>\<open>Math.exp\<close>, \<^verbatim>\<open>Math.sin\<close> and \<^verbatim>\<open>Math.cos\<close> are
  \<open>ln\<close>, \<open>exp\<close>, \<open>sin\<close> and \<open>cos\<close>. Rounding is outside the model, and so are
  the values JavaScript gives where the real functions are undefined (division by zero,
  logarithm of a non-positive number); the theorems below that depend on such a point
  carry the parameter ranges as hypotheses.
\<close>

subsection \<open>Options: shape, behavior, style\<close>

record Marker =
  width :: real
  height :: real

record HandShape =
  base :: Marker
  top :: Marker

record SecondHandShape =
  second_width :: real
  base_height :: real
  top_height :: real
  top_radius :: real

record Shape =
  marker_radius :: real
  hour_marker :: Marker
  minute_marker :: Marker
  hour_hand_shape :: HandShape
  minute_hand_shape :: HandShape
  second_hand_shape :: SecondHandShape

text \<open>
  The three hands share \<^verbatim>\<open>decay\<close> and \<^verbatim>\<open>decay_seconds\<close>; the second hand adds
  \<^verbatim>\<open>pause_seconds\<close>, the minute hand \<^verbatim>\<open>frequency\<close>.
\<close>

record HandBehavior =
  decay :: real
  decay_seconds :: real

record SecondHandBehavior = HandBehavior +
  pause_seconds :: real

record MinuteHandBehavior = HandBehavior +
  frequency :: real

record Behavior =
  second_hand :: SecondHandBehavior
  minute_hand :: MinuteHandBehavior
  hour_hand :: HandBehavior

record Shadow =
  color :: string
  offsetX :: real
  offsetY :: real
  blur :: real

record Style =
  background :: string
  border :: string
  hour_marker_style :: string
  minute_marker_style :: string
  hour_hand_style :: string
  minute_hand_style :: string
  second_hand_style :: string
  shadow :: Shadow

record Options =
  size_px :: real
  fps :: real
  margin :: real
  shape :: Shape
  behavior :: Behavior
  style :: Style

definition DEFAULT_OPTIONS :: Options where
  "DEFAULT_OPTIONS =
    \<lparr> size_px = 300,
      fps = 30,
      margin = 1 / 10,
      shape =
        \<lparr> marker_radius = 485 / 10,
          hour_marker = \<lparr> width = 35 / 10, height = 12 \<rparr>,
          minute_marker = \<lparr> width = 14 / 10, height = 35 / 10 \<rparr>,
          hour_hand_shape =
            \<lparr> base = \<lparr> width = 64 / 10, height = 12 \<rparr>,
              top = \<lparr> width = 52 / 10, height = 32 \<rparr> \<rparr>,
          minute_hand_shape =
            \<lparr> base = \<lparr> width = 52 / 10, height = 12 \<rparr>,
              top = \<lparr> width = 36 / 10, height = 46 \<rparr> \<rparr>,
          second_hand_shape =
            \<lparr> second_width = 14 / 10, base_height = 165 / 10,
              top_height = 312 / 10, top_radius = 525 / 100 \<rparr> \<rparr>,
      behavior =
        \<lparr> second_hand =
            \<lparr> decay = 1 / 10, decay_seconds = 5 / 10, pause_seconds = 15 / 10 \<rparr>,
          minute_hand =
            \<lparr> decay = 1 / 10, decay_seconds = 3 / 10, frequency = 6 \<rparr>,
          hour_hand = \<lparr> decay = 1 / 10, decay_seconds = 1 \<rparr> \<rparr>,
      style =
        \<lparr> background = ''white'',
          border = ''black'',
          hour_marker_style = ''black'',
          minute_marker_style = ''black'',
          hour_hand_style = ''black'',
          minute_hand_style = ''black'',
          second_hand_style = ''red'',
          shadow =
            \<lparr> color = ''rgba(0, 0, 0, 0.2)'', offsetX = 5, offsetY = 5, blur = 2 \<rparr> \<rparr> \<rparr>"

text \<open>
  The caller's options: \<^verbatim>\<open>Object.assign({}, DEFAULT_OPTIONS_, opt || {})\<close> is a
  shallow merge, so a top-level key the caller gives replaces the default whole.
\<close>

record UserOptions =
  opt_size :: "real option"
  opt_fps :: "real option"
  opt_margin :: "real option"
  opt_shape :: "Shape option"
  opt_behavior :: "Behavior option"
  opt_style :: "Style option"

definition no_options :: UserOptions where
  "no_options =
    \<lparr> opt_size = None, opt_fps = None, opt_margin = None,
      opt_shape = None, opt_behavior = None, opt_style = None \<rparr>"

definition assign_options :: "Options \<Rightarrow> UserOptions \<Rightarrow> Options" where
  "assign_options d u =
    \<lparr> size_px = (case opt_size u of None \<Rightarrow> size_px d | Some v \<Rightarrow> v),
      fps = (case opt_fps u of None \<Rightarrow> fps d | Some v \<Rightarrow> v),
      margin = (case opt_margin u of None \<Rightarrow> margin d | Some v \<Rightarrow> v),
      shape = (case opt_shape u of None \<Rightarrow> shape d | Some v \<Rightarrow> v),
      behavior = (case opt_behavior u of None \<Rightarrow> behavior d | Some v \<Rightarrow> v),
      style = (case opt_style u of None \<Rightarrow> style d | Some v \<Rightarrow> v) \<rparr>"

subsection \<open>The clock object and the time sample\<close>

record Clock =
  canvas_width :: real
  canvas_height :: real
  this_interval :: real
  this_margin :: real
  this_shape :: Shape
  this_behavior :: Behavior
  this_style :: Style

text \<open>
  The constructor \<^verbatim>\<open>clock.Clock(e, opt)\<close>; a missing \<^verbatim>\<open>opt\<close> is \<open>None\<close>.
  A field \<^verbatim>\<open>this.behavior_\<close> of the source is \<open>this_behavior\<close> here (a constant's name
  cannot end in an underscore), and likewise for the other fields.
\<close>

definition new_Clock :: "UserOptions option \<Rightarrow> Clock" where
  "new_Clock opt =
    (let opt = assign_options DEFAULT_OPTIONS
                 (case opt of None \<Rightarrow> no_options | Some u \<Rightarrow> u)
     in \<lparr> canvas_width = size_px opt,
          canvas_height = size_px opt,
          this_interval = 1000 / fps opt,
          this_margin = margin opt,
          this_shape = shape opt,
          this_behavior = behavior opt,
          this_style = style opt \<rparr>)"

text \<open>
  A \<^verbatim>\<open>Date\<close>, as the local-time components its getters return. The angle
  functions read the last four only.
\<close>

record Date =
  getFullYear :: int
  getMonth :: nat
  getDate :: nat
  getHours :: nat
  getMinutes :: nat
  getSeconds :: nat
  getMilliseconds :: nat

record Point =
  xc :: real
  yc :: real

section \<open>The angle functions\<close>

definition computeSecondsAngle :: "Clock \<Rightarrow> Date \<Rightarrow> real" where
  "computeSecondsAngle this now =
    (let cycle = 60 - pause_seconds (second_hand (this_behavior this));
         t = real (getMilliseconds now) / 1000 + real (getSeconds now);
         v = 2 * pi / cycle;
         l = ln (decay (second_hand (this_behavior this))) /
             decay_seconds (second_hand (this_behavior this))
     in if t \<ge> cycle then
          (let x = t - cycle in v * x * exp (l * x))
        else v * t * (1 - exp (l * t)))"

definition computeMinutesAngle :: "Clock \<Rightarrow> Date \<Rightarrow> real" where
  "computeMinutesAngle this now =
    (let delta = pi / 30;
         angle = delta * real (getMinutes now);
         t = real (getMilliseconds now) / 1000 + real (getSeconds now);
         l = ln (decay (minute_hand (this_behavior this))) /
             decay_seconds (minute_hand (this_behavior this));
         w = 2 * pi * frequency (minute_hand (this_behavior this));
         wt = w * t
     in angle + delta * exp (l * t) * ((l / w) * sin wt - cos wt))"

definition computeHoursAngle :: "Clock \<Rightarrow> Date \<Rightarrow> real" where
  "computeHoursAngle this now =
    (let t = real (getMilliseconds now) / 1000 + real (getSeconds now);
         delta = pi / 360;
         angle = (real (getMinutes now) + 60 * real (getHours now)) * delta;
         l = ln (decay (hour_hand (this_behavior this))) /
             decay_seconds (hour_hand (this_behavior this))
     in angle + delta * (l * t - 1) * exp (l * t))"

definition rotate :: "Point \<Rightarrow> real \<Rightarrow> Point" where
  "rotate point angle =
    \<lparr> xc = cos angle * xc point - sin angle * yc point,
      yc = sin angle * xc point + cos angle * yc point \<rparr>"

text \<open>
  The three methods once more, as calls on the clock object: a computation over the state
  of the clock that may read and write its fields and returns the angle. Each statement of
  the source is one step; \<^verbatim>\<open>this.behavior_...\<close> is a read of the object at that point
  of the call, a \<^verbatim>\<open>var\<close> without such a read is a local binding. The getters of the
  date are reads of the argument.
\<close>

definition read_this :: "(Clock \<Rightarrow> 'a) \<Rightarrow> (Clock, 'a) state" where
  "read_this field = do { this \<leftarrow> State_Monad.get; State_Monad.return (field this) }"

definition call_computeSecondsAngle :: "Date \<Rightarrow> (Clock, real) state" where
  "call_computeSecondsAngle now = do {
     pause \<leftarrow> read_this (\<lambda>this. pause_seconds (second_hand (this_behavior this)));
     let cycle = 60 - pause;
     let t = real (getMilliseconds now) / 1000 + real (getSeconds now);
     let v = 2 * pi / cycle;
     d \<leftarrow> read_this (\<lambda>this. decay (second_hand (this_behavior this)));
     ds \<leftarrow> read_this (\<lambda>this. decay_seconds (second_hand (this_behavior this)));
     let l = ln d / ds;
     if t \<ge> cycle then do {
       let x = t - cycle;
       State_Monad.return (v * x * exp (l * x))
     } else State_Monad.return (v * t * (1 - exp (l * t)))
   }"

definition call_computeMinutesAngle :: "Date \<Rightarrow> (Clock, real) state" where
  "call_computeMinutesAngle now = do {
     let delta = pi / 30;
     let angle = delta * real (getMinutes now);
     let t = real (getMilliseconds now) / 1000 + real (getSeconds now);
     d \<leftarrow> read_this (\<lambda>this. decay (minute_hand (this_behavior this)));
     ds \<leftarrow> read_this (\<lambda>this. decay_seconds (minute_hand (this_behavior this)));
     let l = ln d / ds;
     f \<leftarrow> read_this (\<lambda>this. frequency (minute_hand (this_behavior this)));
     let w = 2 * pi * f;
     let wt = w * t;
     State_Monad.return (angle + delta * exp (l * t) * ((l / w) * sin wt - cos wt))
   }"

definition call_computeHoursAngle :: "Date \<Rightarrow> (Clock, real) state" where
  "call_computeHoursAngle now = do {
     let t = real (getMilliseconds now) / 1000 + real (getSeconds now);
     let delta = pi / 360;
     let angle = (real (getMinutes now) + 60 * real (getHours now)) * delta;
     d \<leftarrow> read_this (\<lambda>this. decay (hour_hand (this_behavior this)));
     ds \<leftarrow> read_this (\<lambda>this. decay_seconds (hour_hand (this_behavior this)));
     let l = ln d / ds;
     State_Monad.return (angle + delta * (l * t - 1) * exp (l * t))
   }"

section \<open>Parameters and time as the angle functions see them\<close>

text \<open>
  Each angle function first computes the seconds into the current minute,
  \<^verbatim>\<open>now.getMilliseconds() / 1000.0 + now.getSeconds()\<close>.
\<close>

definition sub_minute :: "Date \<Rightarrow> real" where
  "sub_minute now = real (getMilliseconds now) / 1000 + real (getSeconds now)"

text \<open>The decay rate \<^verbatim>\<open>l = Math.log(decay) / decay_seconds\<close> of a hand.\<close>

definition decay_rate :: "'a HandBehavior_scheme \<Rightarrow> real" where
  "decay_rate b = ln (decay b) / decay_seconds b"

text \<open>The parameter ranges and the ranges of the getters.\<close>

definition valid_decay :: "'a HandBehavior_scheme \<Rightarrow> bool" where
  "valid_decay b \<longleftrightarrow> 0 < decay b \<and> decay b < 1 \<and> 0 < decay_seconds b"

definition valid_second_hand :: "SecondHandBehavior \<Rightarrow> bool" where
  "valid_second_hand b \<longleftrightarrow> valid_decay b \<and> 0 \<le> pause_seconds b \<and> pause_seconds b < 60"

definition valid_minute_hand :: "MinuteHandBehavior \<Rightarrow> bool" where
  "valid_minute_hand b \<longleftrightarrow> valid_decay b \<and> 0 < frequency b"

definition valid_time :: "Date \<Rightarrow> bool" where
  "valid_time now \<longleftrightarrow>
     getHours now < 24 \<and> getMinutes now < 60 \<and>
     getSeconds now < 60 \<and> getMilliseconds now < 1000"

text \<open>
  The bodies of the three functions after the time \<open>t\<close> has been read, as functions of a
  real \<open>t\<close>: the same expressions, with the hand's parameters, the minute and the hour as
  arguments. Statements about continuity and limits are about these.
\<close>

definition secondsAngle :: "SecondHandBehavior \<Rightarrow> real \<Rightarrow> real" where
  "secondsAngle b t =
    (let cycle = 60 - pause_seconds b;
         v = 2 * pi / cycle;
         l = ln (decay b) / decay_seconds b
     in if t \<ge> cycle then
          (let x = t - cycle in v * x * exp (l * x))
        else v * t * (1 - exp (l * t)))"

definition minutesAngle :: "MinuteHandBehavior \<Rightarrow> nat \<Rightarrow> real \<Rightarrow> real" where
  "minutesAngle b m t =
    (let delta = pi / 30;
         angle = delta * real m;
         l = ln (decay b) / decay_seconds b;
         w = 2 * pi * frequency b;
         wt = w * t
     in angle + delta * exp (l * t) * ((l / w) * sin wt - cos wt))"

definition hoursAngle :: "HandBehavior \<Rightarrow> nat \<Rightarrow> nat \<Rightarrow> real \<Rightarrow> real" where
  "hoursAngle b m h t =
    (let delta = pi / 360;
         angle = (real m + 60 * real h) * delta;
         l = ln (decay b) / decay_seconds b
     in angle + delta * (l * t - 1) * exp (l * t))"

text \<open>
  The two branches of \<^verbatim>\<open>computeSecondsAngle\<close>, each as a function on all of the reals:
  the expression returned when \<^verbatim>\<open>t >= cycle\<close> fails (the sweep) and the one returned
  when it holds (the hand landing on the mark).
\<close>

definition sweep :: "SecondHandBehavior \<Rightarrow> real \<Rightarrow> real" where
  "sweep b t = 2 * pi / (60 - pause_seconds b) * t * (1 - exp (decay_rate b * t))"

definition landing :: "SecondHandBehavior \<Rightarrow> real \<Rightarrow> real" where
  "landing b t =
     2 * pi / (60 - pause_seconds b) * (t - (60 - pause_seconds b)) *
     exp (decay_rate b * (t - (60 - pause_seconds b)))"

text \<open>
  Sample times and a second clock (caller-supplied size and margin, default behavior),
  used to instantiate the theorems.
\<close>

definition sample_zero :: Date where
  "sample_zero =
    \<lparr> getFullYear = 2010, getMonth = 0, getDate = 1, getHours = 0, getMinutes = 0,
      getSeconds = 0, getMilliseconds = 0 \<rparr>"

definition sample_landing :: Date where
  "sample_landing =
    \<lparr> getFullYear = 2010, getMonth = 0, getDate = 1, getHours = 10, getMinutes = 8,
      getSeconds = 58, getMilliseconds = 500 \<rparr>"

definition sample_other_day :: Date where
  "sample_other_day =
    \<lparr> getFullYear = 2024, getMonth = 6, getDate = 15, getHours = 10, getMinutes = 8,
      getSeconds = 0, getMilliseconds = 100 \<rparr>"

definition large_clock :: Clock where
  "large_clock = new_Clock (Some (no_options \<lparr> opt_size := Some 500, opt_margin := Some (1 / 5) \<rparr>))"

definition sample_sweep :: Date where
  "sample_sweep =
    \<lparr> getFullYear = 2010, getMonth = 0, getDate = 1, getHours = 10, getMinutes = 8,
      getSeconds = 0, getMilliseconds = 100 \<rparr>"

definition sample_late_sweep :: Date where
  "sample_late_sweep =
    \<lparr> getFullYear = 2010, getMonth = 0, getDate = 1, getHours = 10, getMinutes = 8,
      getSeconds = 58, getMilliseconds = 0 \<rparr>"

definition sample_pause :: Date where
  "sample_pause =
    \<lparr> getFullYear = 2010, getMonth = 0, getDate = 1, getHours = 10, getMinutes = 8,
      getSeconds = 59, getMilliseconds = 250 \<rparr>"

section \<open>The functions of \<open>t\<close> are the code\<close>

lemma computeSecondsAngle_eq:
  "computeSecondsAngle this now =
     secondsAngle (second_hand (this_behavior this)) (sub_minute now)"
  by (simp add: computeSecondsAngle_def secondsAngle_def sub_minute_def Let_def)

lemma computeMinutesAngle_eq:
  "computeMinutesAngle this now =
     minutesAngle (minute_hand (this_behavior this)) (getMinutes now) (sub_minute now)"
  by (simp add: computeMinutesAngle_def minutesAngle_def sub_minute_def Let_def)

lemma computeHoursAngle_eq:
  "computeHoursAngle this now =
     hoursAngle (hour_hand (this_behavior this)) (getMinutes now) (getHours now)
       (sub_minute now)"
  by (simp add: computeHoursAngle_def hoursAngle_def sub_minute_def Let_def)

lemma default_behavior:
  "this_behavior (new_Clock None) =
     \<lparr> second_hand = \<lparr> decay = 1 / 10, decay_seconds = 5 / 10, pause_seconds = 15 / 10 \<rparr>,
       minute_hand = \<lparr> decay = 1 / 10, decay_seconds = 3 / 10, frequency = 6 \<rparr>,
       hour_hand = \<lparr> decay = 1 / 10, decay_seconds = 1 \<rparr> \<rparr>"
  by (simp add: new_Clock_def assign_options_def no_options_def DEFAULT_OPTIONS_def)

lemma decay_rate_neg: "valid_decay b \<Longrightarrow> decay_rate b < 0"
  by (simp add: valid_decay_def decay_rate_def divide_neg_pos)

lemma sub_minute_range: "valid_time now \<Longrightarrow> 0 \<le> sub_minute now \<and> sub_minute now < 60"
  by (simp add: valid_time_def sub_minute_def)

section \<open>Continuity of the three functions of \<open>t\<close>\<close>

lemma minutesAngle_continuous: "continuous_on A (minutesAngle b m)"
proof -
  have "minutesAngle b m =
          (\<lambda>t. pi / 30 * real m + pi / 30 * exp (decay_rate b * t) *
                 (decay_rate b / (2 * pi * frequency b) * sin (2 * pi * frequency b * t) -
                  cos (2 * pi * frequency b * t)))"
    by (rule ext) (simp add: minutesAngle_def decay_rate_def Let_def)
  then show ?thesis
    by (simp only:) (intro continuous_intros)
qed

lemma hoursAngle_continuous: "continuous_on A (hoursAngle b m h)"
proof -
  have "hoursAngle b m h =
          (\<lambda>t. (real m + 60 * real h) * (pi / 360) +
                 pi / 360 * (decay_rate b * t - 1) * exp (decay_rate b * t))"
    by (rule ext) (simp add: hoursAngle_def decay_rate_def Let_def)
  then show ?thesis
    by (simp only:) (intro continuous_intros)
qed

lemma secondsAngle_sweep: "t < 60 - pause_seconds b \<Longrightarrow> secondsAngle b t = sweep b t"
  by (simp add: secondsAngle_def sweep_def decay_rate_def Let_def)

lemma secondsAngle_landing: "60 - pause_seconds b \<le> t \<Longrightarrow> secondsAngle b t = landing b t"
  by (simp add: secondsAngle_def landing_def decay_rate_def Let_def)

lemma isCont_sweep: "isCont (sweep b) t"
  unfolding sweep_def by (intro continuous_intros)

lemma isCont_landing: "isCont (landing b) t"
  unfolding landing_def by (intro continuous_intros)

lemma secondsAngle_isCont:
  assumes "t \<noteq> 60 - pause_seconds b"
  shows "isCont (secondsAngle b) t"
proof (cases "t < 60 - pause_seconds b")
  case True
  have "eventually (\<lambda>x. secondsAngle b x = sweep b x) (nhds t)"
    unfolding eventually_nhds
    by (rule exI [of _ "{..< 60 - pause_seconds b}"]) (use True in \<open>simp add: secondsAngle_sweep\<close>)
  then show ?thesis
    using isCont_sweep [where b = b and t = t] by (simp add: isCont_cong)
next
  case False
  with assms have gt: "60 - pause_seconds b < t"
    by simp
  have "eventually (\<lambda>x. secondsAngle b x = landing b x) (nhds t)"
    unfolding eventually_nhds
    by (rule exI [of _ "{60 - pause_seconds b <..}"]) (use gt in \<open>simp add: secondsAngle_landing\<close>)
  then show ?thesis
    using isCont_landing [where b = b and t = t] by (simp add: isCont_cong)
qed

lemma sweep_end_pos:
  assumes "valid_second_hand b"
  shows "0 < sweep b (60 - pause_seconds b)"
proof -
  from assms have cyc: "0 < 60 - pause_seconds b" and v: "valid_decay b"
    by (simp_all add: valid_second_hand_def)
  have "decay_rate b * (60 - pause_seconds b) < 0"
    by (rule mult_neg_pos [OF decay_rate_neg [OF v] cyc])
  then have "0 < 1 - exp (decay_rate b * (60 - pause_seconds b))"
    by simp
  then show ?thesis
    unfolding sweep_def using cyc by simp
qed

lemma secondsAngle_at_left:
  "(secondsAngle b \<longlongrightarrow> sweep b (60 - pause_seconds b)) (at_left (60 - pause_seconds b))"
proof -
  have "(sweep b \<longlongrightarrow> sweep b (60 - pause_seconds b)) (at_left (60 - pause_seconds b))"
    using isCont_sweep [where b = b and t = "60 - pause_seconds b"]
    by (simp add: isCont_def filterlim_at_split)
  moreover have "eventually (\<lambda>x. secondsAngle b x = sweep b x) (at_left (60 - pause_seconds b))"
    unfolding eventually_at_filter by (simp add: secondsAngle_sweep)
  ultimately show ?thesis
    by (simp add: tendsto_cong)
qed

lemma secondsAngle_at_cycle: "secondsAngle b (60 - pause_seconds b) = 0"
  by (simp add: secondsAngle_def Let_def)

lemma secondsAngle_at_right:
  "(secondsAngle b \<longlongrightarrow> 0) (at_right (60 - pause_seconds b))"
proof -
  have "landing b (60 - pause_seconds b) = 0"
    by (simp add: landing_def)
  then have "(landing b \<longlongrightarrow> 0) (at_right (60 - pause_seconds b))"
    using isCont_landing [where b = b and t = "60 - pause_seconds b"]
    by (simp add: isCont_def filterlim_at_split)
  moreover have "eventually (\<lambda>x. secondsAngle b x = landing b x) (at_right (60 - pause_seconds b))"
    unfolding eventually_at_filter by (simp add: secondsAngle_landing)
  ultimately show ?thesis
    by (simp add: tendsto_cong)
qed

lemma secondsAngle_jump:
  assumes "valid_second_hand b"
  shows "\<not> isCont (secondsAngle b) (60 - pause_seconds b)"
proof
  assume "isCont (secondsAngle b) (60 - pause_seconds b)"
  then have "(secondsAngle b \<longlongrightarrow> 0) (at_left (60 - pause_seconds b))"
    by (simp add: isCont_def filterlim_at_split secondsAngle_at_cycle)
  then have "sweep b (60 - pause_seconds b) = 0"
    by (rule tendsto_unique [OF trivial_limit_at_left_real secondsAngle_at_left])
  with sweep_end_pos [OF assms] show False
    by simp
qed

section \<open>The formulas of the three hands\<close>

text \<open>
  Claim C1. For a time sample with \<open>t\<close> in \<open>[0, 60)\<close> and second-hand parameters in
  range, with \<open>cycle = 60 - pause_seconds\<close>, \<open>v = 2 pi / cycle\<close> and
  \<open>lam = ln decay / decay_seconds\<close>, \<^verbatim>\<open>computeSecondsAngle\<close> returns
  \<open>v * t * (1 - exp (lam * t))\<close> when \<open>t < cycle\<close> and \<open>v * x * exp (lam * x)\<close> with
  \<open>x = t - cycle\<close> when \<open>t \<ge> cycle\<close>.
\<close>

theorem seconds_angle_two_phases:
  fixes this :: Clock and now :: Date
  defines "b \<equiv> second_hand (this_behavior this)"
  defines "t \<equiv> sub_minute now"
  defines "cycle \<equiv> 60 - pause_seconds b"
  defines "v \<equiv> 2 * pi / cycle"
  defines "lam \<equiv> ln (decay b) / decay_seconds b"
  assumes "valid_second_hand b" and "valid_time now"
  shows "(t < cycle \<longrightarrow> computeSecondsAngle this now = v * t * (1 - exp (lam * t))) \<and>
         (t \<ge> cycle \<longrightarrow>
            computeSecondsAngle this now = v * (t - cycle) * exp (lam * (t - cycle)))"
  unfolding b_def t_def cycle_def v_def lam_def
  by (simp add: computeSecondsAngle_def sub_minute_def Let_def)

theorem seconds_angle_two_phases_witness:
  "valid_second_hand (second_hand (this_behavior (new_Clock None))) \<and>
   valid_time sample_sweep \<and> valid_time sample_pause \<and>
   sub_minute sample_sweep < 60 - 15 / 10 \<and>
   computeSecondsAngle (new_Clock None) sample_sweep =
     2 * pi / (60 - 15 / 10) * (1 / 10) * (1 - exp (ln (1 / 10) / (5 / 10) * (1 / 10))) \<and>
   sub_minute sample_pause \<ge> 60 - 15 / 10 \<and>
   computeSecondsAngle (new_Clock None) sample_pause =
     2 * pi / (60 - 15 / 10) * (3 / 4) * exp (ln (1 / 10) / (5 / 10) * (3 / 4))"
proof -
  have v: "valid_second_hand (second_hand (this_behavior (new_Clock None)))"
    by (simp add: default_behavior valid_second_hand_def valid_decay_def)
  have t1: "valid_time sample_sweep" and t2: "valid_time sample_pause"
    by (simp_all add: valid_time_def sample_sweep_def sample_pause_def)
  show ?thesis
    using v t1 t2 seconds_angle_two_phases [OF v t1] seconds_angle_two_phases [OF v t2]
    by (simp add: default_behavior sub_minute_def sample_sweep_def sample_pause_def)
qed

text \<open>
  Claim C2. With minute-hand parameters in range, \<^verbatim>\<open>computeMinutesAngle\<close> returns
  \<open>(pi / 30) * m + (pi / 30) * exp (lam * t) * ((lam / w) * sin (w * t) - cos (w * t))\<close>
  with \<open>lam = ln decay / decay_seconds\<close> and \<open>w = 2 pi * frequency\<close>; at \<open>t = 0\<close>,
  minute \<open>0\<close>, frequency \<open>6\<close>, decay \<open>0.1\<close> and decay seconds \<open>0.3\<close> the result is
  \<open>- pi / 30\<close>.
\<close>

theorem minutes_angle_formula:
  fixes this :: Clock and now :: Date
  defines "b \<equiv> minute_hand (this_behavior this)"
  defines "t \<equiv> sub_minute now"
  defines "lam \<equiv> ln (decay b) / decay_seconds b"
  defines "w \<equiv> 2 * pi * frequency b"
  assumes "valid_minute_hand b" and "valid_time now"
  shows "computeMinutesAngle this now =
           (pi / 30) * real (getMinutes now) +
           (pi / 30) * exp (lam * t) * ((lam / w) * sin (w * t) - cos (w * t)) \<and>
         (getMinutes now = 0 \<and> t = 0 \<and> frequency b = 6 \<and> decay b = 1 / 10 \<and>
          decay_seconds b = 3 / 10 \<longrightarrow> computeMinutesAngle this now = - pi / 30)"
  unfolding b_def t_def lam_def w_def
  by (simp add: computeMinutesAngle_def sub_minute_def Let_def)

theorem minutes_angle_formula_witness:
  "valid_minute_hand (minute_hand (this_behavior (new_Clock None))) \<and>
   valid_time sample_zero \<and>
   getMinutes sample_zero = 0 \<and> sub_minute sample_zero = 0 \<and>
   frequency (minute_hand (this_behavior (new_Clock None))) = 6 \<and>
   decay (minute_hand (this_behavior (new_Clock None))) = 1 / 10 \<and>
   decay_seconds (minute_hand (this_behavior (new_Clock None))) = 3 / 10 \<and>
   computeMinutesAngle (new_Clock None) sample_zero = - pi / 30"
proof -
  have v: "valid_minute_hand (minute_hand (this_behavior (new_Clock None)))"
    by (simp add: default_behavior valid_minute_hand_def valid_decay_def)
  have t: "valid_time sample_zero"
    by (simp add: valid_time_def sample_zero_def)
  show ?thesis
    using v t minutes_angle_formula [OF v t]
    by (simp add: default_behavior sub_minute_def sample_zero_def)
qed

text \<open>
  Claim C3. With hour-hand parameters in range, for every hour and every minute below
  \<open>60\<close>, \<^verbatim>\<open>computeHoursAngle\<close> returns
  \<open>(pi / 360) * (m + 60 * h) + (pi / 360) * (lam * t - 1) * exp (lam * t)\<close>; at \<open>t = 0\<close>
  the correction added to the base angle is \<open>- pi / 360\<close>.
\<close>

theorem hours_angle_formula:
  fixes this :: Clock and now :: Date
  defines "b \<equiv> hour_hand (this_behavior this)"
  defines "t \<equiv> sub_minute now"
  defines "lam \<equiv> ln (decay b) / decay_seconds b"
  defines "angle0 \<equiv> (pi / 360) * (real (getMinutes now) + 60 * real (getHours now))"
  assumes "valid_decay b" and "getMinutes now < 60" and "0 \<le> t \<and> t < 60"
  shows "computeHoursAngle this now = angle0 + (pi / 360) * (lam * t - 1) * exp (lam * t) \<and>
         (t = 0 \<longrightarrow> computeHoursAngle this now - angle0 = - pi / 360)"
proof -
  have eq: "computeHoursAngle this now =
              angle0 + (pi / 360) * (lam * t - 1) * exp (lam * t)"
    unfolding b_def t_def lam_def angle0_def
    by (simp add: computeHoursAngle_eq hoursAngle_def Let_def mult.commute)
  moreover have "computeHoursAngle this now - angle0 = - pi / 360" if "t = 0"
    using eq that by simp
  ultimately show ?thesis
    by blast
qed

theorem hours_angle_formula_witness:
  "valid_decay (hour_hand (this_behavior (new_Clock None))) \<and>
   getMinutes sample_zero < 60 \<and>
   (0 \<le> sub_minute sample_zero \<and> sub_minute sample_zero < 60) \<and>
   sub_minute sample_zero = 0 \<and>
   computeHoursAngle (new_Clock None) sample_zero -
     (pi / 360) * (real (getMinutes sample_zero) + 60 * real (getHours sample_zero)) =
     - pi / 360"
proof -
  have v: "valid_decay (hour_hand (this_behavior (new_Clock None)))"
    by (simp add: default_behavior valid_decay_def)
  have m: "getMinutes sample_zero < 60"
    by (simp add: sample_zero_def)
  have t: "0 \<le> sub_minute sample_zero \<and> sub_minute sample_zero < 60"
    by (simp add: sub_minute_def sample_zero_def)
  show ?thesis
    using v m t hours_angle_formula [OF v m t]
    by (simp add: sub_minute_def sample_zero_def)
qed

section \<open>The rotation helper\<close>

text \<open>
  Claim C7. Rotating a point by an angle and the result by the opposite angle gives the
  point back, over the reals.
\<close>

theorem rotate_round_trip: "rotate (rotate p \<theta>) (- \<theta>) = p"
proof -
  have unit: "cos \<theta> * cos \<theta> + sin \<theta> * sin \<theta> = 1"
    using sin_cos_squared_add3 [of \<theta>] by (simp add: add.commute)
  have "cos \<theta> * (cos \<theta> * xc p - sin \<theta> * yc p) +
        sin \<theta> * (sin \<theta> * xc p + cos \<theta> * yc p) =
        (cos \<theta> * cos \<theta> + sin \<theta> * sin \<theta>) * xc p"
    by algebra
  then have x: "cos \<theta> * (cos \<theta> * xc p - sin \<theta> * yc p) +
        sin \<theta> * (sin \<theta> * xc p + cos \<theta> * yc p) = xc p"
    unfolding unit by simp
  have "cos \<theta> * (sin \<theta> * xc p + cos \<theta> * yc p) -
        sin \<theta> * (cos \<theta> * xc p - sin \<theta> * yc p) =
        (cos \<theta> * cos \<theta> + sin \<theta> * sin \<theta>) * yc p"
    by algebra
  then have y: "cos \<theta> * (sin \<theta> * xc p + cos \<theta> * yc p) -
        sin \<theta> * (cos \<theta> * xc p - sin \<theta> * yc p) = yc p"
    unfolding unit by simp
  show ?thesis
    using x y by (simp add: rotate_def)
qed

section \<open>What the angles depend on, and the sign of the seconds angle\<close>

text \<open>
  A call of one of the three methods on a clock returns what the function of the same
  name gives and leaves the clock as it was.
\<close>

lemma run_read_this: "run_state (read_this field) this = (field this, this)"
  by (simp add: read_this_def)

lemma run_call_computeSecondsAngle:
  "run_state (call_computeSecondsAngle now) this = (computeSecondsAngle this now, this)"
  by (simp add: call_computeSecondsAngle_def computeSecondsAngle_def run_read_this Let_def)

lemma run_call_computeMinutesAngle:
  "run_state (call_computeMinutesAngle now) this = (computeMinutesAngle this now, this)"
  by (simp add: call_computeMinutesAngle_def computeMinutesAngle_def run_read_this Let_def)

lemma run_call_computeHoursAngle:
  "run_state (call_computeHoursAngle now) this = (computeHoursAngle this now, this)"
  by (simp add: call_computeHoursAngle_def computeHoursAngle_def run_read_this Let_def)

text \<open>
  Claim C9. The three angle computations are purely functional. Two calls that agree on
  the hour, minute, second and millisecond of the time sample and on the behavior
  parameters return equal angles, whatever the other components of the date and the other
  fields of the clock are. And no call modifies the clock: run as a computation over the
  state of the clock object, each method ends in the state it started from, with every
  field as it was, and so does the sequence of the three calls that \<^verbatim>\<open>drawHands\<close>
  makes.
\<close>

theorem angles_depend_on_time_and_behavior_only:
  assumes "getHours d1 = getHours d2" and "getMinutes d1 = getMinutes d2"
    and "getSeconds d1 = getSeconds d2" and "getMilliseconds d1 = getMilliseconds d2"
    and "this_behavior c1 = this_behavior c2"
  shows "computeSecondsAngle c1 d1 = computeSecondsAngle c2 d2 \<and>
         computeMinutesAngle c1 d1 = computeMinutesAngle c2 d2 \<and>
         computeHoursAngle c1 d1 = computeHoursAngle c2 d2 \<and>
         fst (run_state (call_computeSecondsAngle d1) c1) =
           fst (run_state (call_computeSecondsAngle d2) c2) \<and>
         fst (run_state (call_computeMinutesAngle d1) c1) =
           fst (run_state (call_computeMinutesAngle d2) c2) \<and>
         fst (run_state (call_computeHoursAngle d1) c1) =
           fst (run_state (call_computeHoursAngle d2) c2) \<and>
         run_state (call_computeSecondsAngle d1) c1 = (computeSecondsAngle c1 d1, c1) \<and>
         run_state (call_computeMinutesAngle d1) c1 = (computeMinutesAngle c1 d1, c1) \<and>
         run_state (call_computeHoursAngle d1) c1 = (computeHoursAngle c1 d1, c1) \<and>
         run_state (do { h \<leftarrow> call_computeHoursAngle d1;
                         m \<leftarrow> call_computeMinutesAngle d1;
                         s \<leftarrow> call_computeSecondsAngle d1;
                         State_Monad.return (h, m, s) }) c1 =
           ((computeHoursAngle c1 d1, computeMinutesAngle c1 d1, computeSecondsAngle c1 d1), c1)"
proof -
  have pure: "computeSecondsAngle c1 d1 = computeSecondsAngle c2 d2"
    "computeMinutesAngle c1 d1 = computeMinutesAngle c2 d2"
    "computeHoursAngle c1 d1 = computeHoursAngle c2 d2"
    using assms
    by (simp_all add: computeSecondsAngle_def computeMinutesAngle_def computeHoursAngle_def)
  then show ?thesis
    by (simp add: run_call_computeSecondsAngle run_call_computeMinutesAngle
        run_call_computeHoursAngle)
qed

theorem angles_depend_on_time_and_behavior_only_witness:
  "sample_sweep \<noteq> sample_other_day \<and> new_Clock None \<noteq> large_clock \<and>
   getHours sample_sweep = getHours sample_other_day \<and>
   getMinutes sample_sweep = getMinutes sample_other_day \<and>
   getSeconds sample_sweep = getSeconds sample_other_day \<and>
   getMilliseconds sample_sweep = getMilliseconds sample_other_day \<and>
   this_behavior (new_Clock None) = this_behavior large_clock \<and>
   computeSecondsAngle (new_Clock None) sample_sweep =
     computeSecondsAngle large_clock sample_other_day \<and>
   computeMinutesAngle (new_Clock None) sample_sweep =
     computeMinutesAngle large_clock sample_other_day \<and>
   computeHoursAngle (new_Clock None) sample_sweep =
     computeHoursAngle large_clock sample_other_day \<and>
   fst (run_state (call_computeSecondsAngle sample_sweep) (new_Clock None)) =
     fst (run_state (call_computeSecondsAngle sample_other_day) large_clock) \<and>
   snd (run_state (call_computeSecondsAngle sample_sweep) (new_Clock None)) = new_Clock None \<and>
   snd (run_state (call_computeMinutesAngle sample_sweep) (new_Clock None)) = new_Clock None \<and>
   snd (run_state (call_computeHoursAngle sample_sweep) (new_Clock None)) = new_Clock None"
proof -
  have d: "sample_sweep \<noteq> sample_other_day"
    by (simp add: sample_sweep_def sample_other_day_def)
  have c: "new_Clock None \<noteq> large_clock"
    by (simp add: large_clock_def new_Clock_def assign_options_def no_options_def
        DEFAULT_OPTIONS_def)
  have h: "getHours sample_sweep = getHours sample_other_day"
    and m: "getMinutes sample_sweep = getMinutes sample_other_day"
    and s: "getSeconds sample_sweep = getSeconds sample_other_day"
    and ms: "getMilliseconds sample_sweep = getMilliseconds sample_other_day"
    by (simp_all add: sample_sweep_def sample_other_day_def)
  have b: "this_behavior (new_Clock None) = this_behavior large_clock"
    by (simp add: large_clock_def new_Clock_def assign_options_def no_options_def)
  note inst = angles_depend_on_time_and_behavior_only [OF h m s ms b]
  from inst have
    r1: "run_state (call_computeSecondsAngle sample_sweep) (new_Clock None) =
           (computeSecondsAngle (new_Clock None) sample_sweep, new_Clock None)"
    and r2: "run_state (call_computeMinutesAngle sample_sweep) (new_Clock None) =
           (computeMinutesAngle (new_Clock None) sample_sweep, new_Clock None)"
    and r3: "run_state (call_computeHoursAngle sample_sweep) (new_Clock None) =
           (computeHoursAngle (new_Clock None) sample_sweep, new_Clock None)"
    by blast+
  have "snd (run_state (call_computeSecondsAngle sample_sweep) (new_Clock None)) = new_Clock None"
    and "snd (run_state (call_computeMinutesAngle sample_sweep) (new_Clock None)) = new_Clock None"
    and "snd (run_state (call_computeHoursAngle sample_sweep) (new_Clock None)) = new_Clock None"
    by (simp_all only: r1 r2 r3 snd_conv)
  then show ?thesis
    using d c h m s ms b inst by blast
qed

text \<open>
  Claim C10. With second-hand parameters in range and \<open>t\<close> in \<open>[0, 60)\<close>, the seconds
  angle is never negative: in the sweep \<open>exp (lam * t) \<le> 1\<close>, in the pause every factor
  is non-negative.
\<close>

theorem seconds_angle_nonneg:
  assumes "valid_second_hand (second_hand (this_behavior this))" and "valid_time now"
  shows "0 \<le> computeSecondsAngle this now"
proof -
  let ?b = "second_hand (this_behavior this)"
  let ?t = "sub_minute now"
  let ?cycle = "60 - pause_seconds ?b"
  let ?l = "ln (decay ?b) / decay_seconds ?b"
  from assms(1) have cyc: "0 < ?cycle" and lam: "?l < 0"
    by (simp_all add: valid_second_hand_def valid_decay_def divide_neg_pos)
  from assms(2) have t0: "0 \<le> ?t"
    by (simp add: sub_minute_range)
  show ?thesis
  proof (cases "?t \<ge> ?cycle")
    case True
    then have "0 \<le> 2 * pi / ?cycle * (?t - ?cycle) * exp (?l * (?t - ?cycle))"
      using cyc by simp
    with True show ?thesis
      by (simp add: computeSecondsAngle_eq secondsAngle_def Let_def)
  next
    case False
    have "?l * ?t \<le> 0"
      by (rule mult_nonpos_nonneg [OF less_imp_le [OF lam] t0])
    then have "0 \<le> 1 - exp (?l * ?t)"
      by simp
    then have "0 \<le> 2 * pi / ?cycle * ?t * (1 - exp (?l * ?t))"
      using cyc t0 by simp
    with False show ?thesis
      by (simp add: computeSecondsAngle_eq secondsAngle_def Let_def)
  qed
qed

theorem seconds_angle_nonneg_witness:
  "valid_second_hand (second_hand (this_behavior (new_Clock None))) \<and>
   valid_time sample_pause \<and> 0 \<le> computeSecondsAngle (new_Clock None) sample_pause"
proof -
  have v: "valid_second_hand (second_hand (this_behavior (new_Clock None)))"
    by (simp add: default_behavior valid_second_hand_def valid_decay_def)
  have t: "valid_time sample_pause"
    by (simp add: valid_time_def sample_pause_def)
  show ?thesis
    using v t seconds_angle_nonneg [OF v t] by simp
qed

section \<open>The jump of the second hand\<close>

text \<open>
  In the second half of the sweep the seconds angle stays above a positive bound.
\<close>

lemma late_sweep_gap:
  assumes "valid_second_hand b"
  shows "0 < pi * (1 - exp (decay_rate b * ((60 - pause_seconds b) / 2)))"
proof -
  from assms have "0 < 60 - pause_seconds b" and "decay_rate b < 0"
    by (simp_all add: valid_second_hand_def decay_rate_neg)
  then have "decay_rate b * ((60 - pause_seconds b) / 2) < 0"
    by (intro mult_neg_pos) simp_all
  then show ?thesis
    by simp
qed

lemma late_sweep_bounded_below:
  assumes "valid_second_hand b"
    and "(60 - pause_seconds b) / 2 \<le> t" and "t < 60 - pause_seconds b"
  shows "pi * (1 - exp (decay_rate b * ((60 - pause_seconds b) / 2))) \<le> secondsAngle b t"
proof -
  let ?c = "60 - pause_seconds b"
  let ?l = "decay_rate b"
  from assms(1) have cyc: "0 < ?c" and neg: "?l < 0"
    by (simp_all add: valid_second_hand_def decay_rate_neg)
  have "?l * (?c / 2) < 0"
    using neg cyc by (intro mult_neg_pos) simp_all
  then have gap: "0 < 1 - exp (?l * (?c / 2))"
    by simp
  have "?l * t \<le> ?l * (?c / 2)"
    using neg assms(2) by (intro mult_left_mono_neg) simp_all
  then have e: "1 - exp (?l * (?c / 2)) \<le> 1 - exp (?l * t)"
    by simp
  have "2 * pi / ?c * (?c / 2) \<le> 2 * pi / ?c * t"
    using cyc assms(2) by (intro mult_left_mono) simp_all
  then have v: "pi \<le> 2 * pi / ?c * t"
    using cyc by simp
  have nn: "0 \<le> 2 * pi / ?c * t"
    using v pi_ge_zero by linarith
  have "pi * (1 - exp (?l * (?c / 2))) \<le> (2 * pi / ?c * t) * (1 - exp (?l * t))"
    by (rule mult_mono [OF v e nn less_imp_le [OF gap]])
  then show ?thesis
    using assms(3) by (simp add: secondsAngle_sweep sweep_def)
qed

text \<open>
  Claim C4. With second-hand parameters in range, at \<open>t = cycle\<close> the pause formula is
  \<open>0\<close> and so is the value the code returns, while the sweep formula at \<open>t = cycle\<close>,
  \<open>v * cycle * (1 - exp (lam * cycle))\<close>, is not \<open>0\<close>. The code returns the sweep formula
  at every sample before \<open>cycle\<close>, and at least \<open>pi * (1 - exp (lam * cycle / 2)) > 0\<close> at
  every sample in the second half of the sweep, however close to \<open>cycle\<close>. What the code
  computes is the function \<open>secondsAngle\<close> at \<open>t = sub_minute now\<close>; that function tends to
  the non-zero sweep value from the left of \<open>cycle\<close> and to \<open>0\<close> from the right: the
  seconds angle has a jump at \<open>t = cycle\<close> and is not continuous there.
\<close>

theorem seconds_angle_jump_at_cycle:
  fixes this :: Clock
  defines "b \<equiv> second_hand (this_behavior this)"
  defines "cycle \<equiv> 60 - pause_seconds b"
  defines "v \<equiv> 2 * pi / cycle"
  defines "lam \<equiv> ln (decay b) / decay_seconds b"
  assumes valid: "valid_second_hand b"
  shows "v * (cycle - cycle) * exp (lam * (cycle - cycle)) = 0 \<and>
         (\<forall>now. sub_minute now = cycle \<longrightarrow> computeSecondsAngle this now = 0) \<and>
         v * cycle * (1 - exp (lam * cycle)) \<noteq> 0 \<and>
         (secondsAngle b \<longlongrightarrow> v * cycle * (1 - exp (lam * cycle))) (at_left cycle) \<and>
         (secondsAngle b \<longlongrightarrow> 0) (at_right cycle) \<and>
         \<not> isCont (secondsAngle b) cycle \<and>
         (\<forall>now. computeSecondsAngle this now = secondsAngle b (sub_minute now)) \<and>
         (\<forall>now. sub_minute now < cycle \<longrightarrow>
            computeSecondsAngle this now =
              v * sub_minute now * (1 - exp (lam * sub_minute now))) \<and>
         0 < pi * (1 - exp (lam * (cycle / 2))) \<and>
         (\<forall>now. cycle / 2 \<le> sub_minute now \<and> sub_minute now < cycle \<longrightarrow>
            pi * (1 - exp (lam * (cycle / 2))) \<le> computeSecondsAngle this now)"
proof -
  have sw: "v * cycle * (1 - exp (lam * cycle)) = sweep b cycle"
    by (simp add: sweep_def v_def lam_def cycle_def decay_rate_def)
  have lam: "lam = decay_rate b"
    by (simp add: lam_def decay_rate_def)
  have link: "computeSecondsAngle this now = secondsAngle b (sub_minute now)" for now
    by (simp add: computeSecondsAngle_eq b_def)
  have "computeSecondsAngle this now = 0" if "sub_minute now = cycle" for now
    using that secondsAngle_at_cycle [of b]
    by (simp add: computeSecondsAngle_eq b_def cycle_def)
  moreover have "v * cycle * (1 - exp (lam * cycle)) \<noteq> 0"
  proof -
    have "0 < sweep b cycle"
      unfolding cycle_def by (rule sweep_end_pos [OF valid])
    then show ?thesis
      by (simp only: sw)
  qed
  moreover have "(secondsAngle b \<longlongrightarrow> v * cycle * (1 - exp (lam * cycle))) (at_left cycle)"
    unfolding sw unfolding cycle_def by (rule secondsAngle_at_left)
  moreover have "(secondsAngle b \<longlongrightarrow> 0) (at_right cycle)"
    unfolding cycle_def by (rule secondsAngle_at_right)
  moreover have "\<not> isCont (secondsAngle b) cycle"
    unfolding cycle_def by (rule secondsAngle_jump [OF valid])
  moreover have "computeSecondsAngle this now =
      v * sub_minute now * (1 - exp (lam * sub_minute now))" if "sub_minute now < cycle" for now
    using that unfolding link
    by (simp add: secondsAngle_sweep sweep_def cycle_def v_def lam)
  moreover have "0 < pi * (1 - exp (lam * (cycle / 2)))"
    unfolding lam cycle_def by (rule late_sweep_gap [OF valid])
  moreover have "pi * (1 - exp (lam * (cycle / 2))) \<le> computeSecondsAngle this now"
    if "cycle / 2 \<le> sub_minute now \<and> sub_minute now < cycle" for now
    unfolding link lam cycle_def
    by (rule late_sweep_bounded_below [OF valid]) (use that in \<open>simp_all add: cycle_def\<close>)
  ultimately show ?thesis
    using link by simp
qed

theorem seconds_angle_jump_at_cycle_witness:
  "valid_second_hand (second_hand (this_behavior (new_Clock None))) \<and>
   sub_minute sample_landing = 60 - 15 / 10 \<and>
   computeSecondsAngle (new_Clock None) sample_landing = 0 \<and>
   2 * pi / (60 - 15 / 10) * (60 - 15 / 10) *
     (1 - exp (ln (1 / 10) / (5 / 10) * (60 - 15 / 10))) \<noteq> 0 \<and>
   \<not> isCont (secondsAngle (second_hand (this_behavior (new_Clock None)))) (60 - 15 / 10) \<and>
   ((60 - 15 / 10) / 2 \<le> sub_minute sample_late_sweep \<and>
    sub_minute sample_late_sweep < 60 - 15 / 10) \<and>
   0 < pi * (1 - exp (ln (1 / 10) / (5 / 10) * ((60 - 15 / 10) / 2))) \<and>
   pi * (1 - exp (ln (1 / 10) / (5 / 10) * ((60 - 15 / 10) / 2))) \<le>
     computeSecondsAngle (new_Clock None) sample_late_sweep"
proof -
  have v: "valid_second_hand (second_hand (this_behavior (new_Clock None)))"
    by (simp add: default_behavior valid_second_hand_def valid_decay_def)
  have t: "sub_minute sample_landing = 60 - 15 / 10"
    by (simp add: sub_minute_def sample_landing_def)
  have l: "sub_minute sample_late_sweep = 58"
    by (simp add: sub_minute_def sample_late_sweep_def)
  let ?b = "second_hand (this_behavior (new_Clock None))"
  let ?c = "60 - pause_seconds ?b"
  let ?lam = "ln (decay ?b) / decay_seconds ?b"
  note inst = seconds_angle_jump_at_cycle [OF v]
  from inst have low: "?c / 2 \<le> sub_minute now \<and> sub_minute now < ?c \<longrightarrow>
      pi * (1 - exp (?lam * (?c / 2))) \<le> computeSecondsAngle (new_Clock None) now" for now
    by blast
  from inst have land: "sub_minute now = ?c \<longrightarrow>
      computeSecondsAngle (new_Clock None) now = 0" for now
    by blast
  from inst have rest: "2 * pi / ?c * ?c * (1 - exp (?lam * ?c)) \<noteq> 0"
    "\<not> isCont (secondsAngle ?b) ?c" "0 < pi * (1 - exp (?lam * (?c / 2)))"
    by blast+
  have "pi * (1 - exp (ln (1 / 10) / (5 / 10) * ((60 - 15 / 10) / 2))) \<le>
       computeSecondsAngle (new_Clock None) sample_late_sweep"
    using low [of sample_late_sweep] l by (simp add: default_behavior)
  moreover have "computeSecondsAngle (new_Clock None) sample_landing = 0"
    using land [of sample_landing] t by (simp add: default_behavior)
  moreover have
    "2 * pi / (60 - 15 / 10) * (60 - 15 / 10) *
       (1 - exp (ln (1 / 10) / (5 / 10) * (60 - 15 / 10))) \<noteq> 0"
    and "\<not> isCont (secondsAngle (second_hand (this_behavior (new_Clock None)))) (60 - 15 / 10)"
    and "0 < pi * (1 - exp (ln (1 / 10) / (5 / 10) * ((60 - 15 / 10) / 2)))"
    using rest by (simp_all add: default_behavior)
  ultimately show ?thesis
    using v t l by simp
qed

text \<open>
  Claim C6. With parameters in range, the minutes angle and the hours angle are continuous
  functions of \<open>t\<close> over \<open>[0, 60)\<close> (and at every real \<open>t\<close>) for a fixed minute and hour,
  and the seconds angle is discontinuous at \<open>t = cycle\<close> and nowhere else. The functions
  of \<open>t\<close> are the ones the three methods compute at \<open>t = sub_minute now\<close>.
\<close>

theorem minutes_hours_continuous_seconds_single_jump:
  fixes this :: Clock
  defines "bs \<equiv> second_hand (this_behavior this)"
  defines "bm \<equiv> minute_hand (this_behavior this)"
  defines "bh \<equiv> hour_hand (this_behavior this)"
  assumes valid: "valid_second_hand bs" and "valid_minute_hand bm" and "valid_decay bh"
  shows "(\<forall>now. computeMinutesAngle this now = minutesAngle bm (getMinutes now) (sub_minute now)) \<and>
         (\<forall>now. computeHoursAngle this now =
                  hoursAngle bh (getMinutes now) (getHours now) (sub_minute now)) \<and>
         (\<forall>now. computeSecondsAngle this now = secondsAngle bs (sub_minute now)) \<and>
         continuous_on {0..<60} (minutesAngle bm m) \<and>
         continuous_on {0..<60} (hoursAngle bh m h) \<and>
         (\<forall>t. isCont (minutesAngle bm m) t) \<and>
         (\<forall>t. isCont (hoursAngle bh m h) t) \<and>
         (\<forall>t. \<not> isCont (secondsAngle bs) t \<longleftrightarrow> t = 60 - pause_seconds bs)"
proof -
  have "isCont (minutesAngle bm m) t" for t
    using minutesAngle_continuous [of UNIV bm m]
    by (simp add: continuous_on_eq_continuous_at)
  moreover have "isCont (hoursAngle bh m h) t" for t
    using hoursAngle_continuous [of UNIV bh m h]
    by (simp add: continuous_on_eq_continuous_at)
  moreover have "\<not> isCont (secondsAngle bs) t \<longleftrightarrow> t = 60 - pause_seconds bs" for t
    using secondsAngle_isCont [of t bs] secondsAngle_jump [OF valid] by blast
  ultimately show ?thesis
    unfolding bs_def bm_def bh_def
    by (simp add: computeSecondsAngle_eq computeMinutesAngle_eq computeHoursAngle_eq
        minutesAngle_continuous hoursAngle_continuous)
qed

theorem minutes_hours_continuous_seconds_single_jump_witness:
  "valid_second_hand (second_hand (this_behavior (new_Clock None))) \<and>
   valid_minute_hand (minute_hand (this_behavior (new_Clock None))) \<and>
   valid_decay (hour_hand (this_behavior (new_Clock None))) \<and>
   continuous_on {0..<60} (minutesAngle (minute_hand (this_behavior (new_Clock None))) 8) \<and>
   continuous_on {0..<60} (hoursAngle (hour_hand (this_behavior (new_Clock None))) 8 10) \<and>
   isCont (secondsAngle (second_hand (this_behavior (new_Clock None)))) (1 / 10) \<and>
   \<not> isCont (secondsAngle (second_hand (this_behavior (new_Clock None)))) (60 - 15 / 10)"
proof -
  have s: "valid_second_hand (second_hand (this_behavior (new_Clock None)))"
    by (simp add: default_behavior valid_second_hand_def valid_decay_def)
  have m: "valid_minute_hand (minute_hand (this_behavior (new_Clock None)))"
    by (simp add: default_behavior valid_minute_hand_def valid_decay_def)
  have h: "valid_decay (hour_hand (this_behavior (new_Clock None)))"
    by (simp add: default_behavior valid_decay_def)
  note inst = minutes_hours_continuous_seconds_single_jump [OF s m h, of 8 10]
  from inst have jump:
    "\<not> isCont (secondsAngle (second_hand (this_behavior (new_Clock None)))) t \<longleftrightarrow>
     t = 60 - pause_seconds (second_hand (this_behavior (new_Clock None)))" for t
    by blast
  have "isCont (secondsAngle (second_hand (this_behavior (new_Clock None)))) (1 / 10)"
    using jump [of "1 / 10"] by (simp add: default_behavior)
  moreover
  have "\<not> isCont (secondsAngle (second_hand (this_behavior (new_Clock None)))) (60 - 15 / 10)"
    using jump [of "60 - 15 / 10"] by (simp add: default_behavior)
  ultimately show ?thesis
    using s m h inst by simp
qed

section \<open>The default second hand a tenth of a second into the minute\<close>

text \<open>
  Bounds on \<open>pi\<close> from \<open>sin (pi / 6) = 1 / 2\<close> and the Maclaurin polynomial of the sine,
  and on \<open>exp (ln (1 / 10) / 5)\<close> from its fifth power.
\<close>

lemma sin_coeff_upto_4: "sin_coeff (Suc 0) = 1" "sin_coeff 2 = 0" "sin_coeff 3 = - 1 / 6" "sin_coeff 4 = 0"
  by (simp_all add: sin_coeff_def fact_numeral)

lemma sin_partial_sum_5: "(\<Sum>m<5. sin_coeff m * x ^ m) = x - x ^ 3 / 6" for x :: real
proof -
  have "{..<5::nat} = {0, 1, 2, 3, 4}"
    by auto
  then show ?thesis
    by (simp add: sin_coeff_upto_4)
qed

lemma sin_taylor5:
  fixes x :: real
  shows "\<bar>sin x - (x - x ^ 3 / 6)\<bar> \<le> \<bar>x\<bar> ^ 5 / 120"
proof -
  have e: "inverse (fact 5) * \<bar>x\<bar> ^ 5 = \<bar>x\<bar> ^ 5 / 120"
    by (simp add: fact_numeral)
  show ?thesis
    using Maclaurin_sin_bound [of x 5] unfolding sin_partial_sum_5 e .
qed

lemma pi_bounds: "31 / 10 < pi \<and> pi < 32 / 10"
proof -
  define x where "x = pi / 6"
  have sinx: "sin x = 1 / 2"
    by (simp add: x_def sin_30)
  have x0: "0 \<le> x"
    by (simp add: x_def)
  have "\<bar>1 / 2 - (x - x ^ 3 / 6)\<bar> \<le> x ^ 5 / 120"
    using sin_taylor5 [of x] x0 by (simp only: sinx abs_of_nonneg)
  then have lo: "x - x ^ 3 / 6 - x ^ 5 / 120 \<le> 1 / 2"
    and hi: "1 / 2 \<le> x - x ^ 3 / 6 + x ^ 5 / 120"
    by linarith+
  have x1: "x \<le> 2 / 3"
    using pi_less_4 by (simp add: x_def)
  have "x ^ 3 \<le> (2 / 3) ^ 3" and "x ^ 5 \<le> (2 / 3) ^ 5"
    using x0 x1 by (simp_all only: power_mono)
  then have "x ^ 3 \<le> 8 / 27" and "x ^ 5 \<le> 32 / 243"
    by (simp_all add: power_divide)
  with lo have x2: "x \<le> 551 / 1000"
    by linarith
  have "x ^ 3 \<le> (551 / 1000) ^ 3" and "x ^ 5 \<le> (551 / 1000) ^ 5"
    using x0 x2 by (simp_all only: power_mono)
  then have "x ^ 3 \<le> 168 / 1000" and "x ^ 5 \<le> 51 / 1000"
    by (simp_all add: power_divide)
  with lo have x3: "x \<le> 53 / 100"
    by linarith
  have half: "1 / 2 \<le> x"
    using sin_x_le_x [OF x0] sinx by simp
  have "x ^ 5 \<le> (53 / 100) ^ 5"
    using x0 x3 by (simp only: power_mono)
  then have p5: "x ^ 5 \<le> 42 / 1000"
    by (simp add: power_divide)
  have "(1 / 2) ^ 3 \<le> x ^ 3"
    using half by (simp only: power_mono zero_le_divide_1_iff zero_le_numeral)
  then have "1 / 8 \<le> x ^ 3"
    by (simp add: power_divide)
  with hi p5 have x4: "52 / 100 \<le> x"
    by linarith
  from x3 x4 show ?thesis
    by (simp add: x_def)
qed


lemma tenth_root_bounds:
  fixes u :: real
  assumes "u = exp (ln (1 / 10) / (5 / 10) * (1 / 10))"
  shows "63 / 100 < u \<and> u < 632 / 1000"
proof -
  have "u ^ 5 = exp (of_nat 5 * (ln (1 / 10) / (5 / 10) * (1 / 10)))"
    unfolding assms by (rule exp_of_nat_mult [symmetric])
  also have "of_nat 5 * (ln (1 / 10) / (5 / 10) * (1 / 10)) = ln (1 / 10 :: real)"
    by simp
  also have "exp (ln (1 / 10 :: real)) = 1 / 10"
    by (rule exp_ln) simp
  finally have u5: "u ^ 5 = 1 / 10" .
  have u0: "0 < u"
    by (simp add: assms)
  have "63 / 100 < u"
  proof (rule ccontr)
    assume "\<not> 63 / 100 < u"
    then have "u ^ 5 \<le> (63 / 100) ^ 5"
      using u0 by (intro power_mono) simp_all
    then show False
      by (simp add: u5 power_divide)
  qed
  moreover have "u < 632 / 1000"
  proof (rule ccontr)
    assume "\<not> u < 632 / 1000"
    then have "(632 / 1000) ^ 5 \<le> u ^ 5"
      by (intro power_mono) simp_all
    then show False
      by (simp add: u5 power_divide)
  qed
  ultimately show ?thesis
    by simp
qed

lemma default_sweep_value:
  "computeSecondsAngle (new_Clock None) sample_sweep =
     pi * (1 - exp (ln (1 / 10) / (5 / 10) * (1 / 10))) * (2 / 585)"
  by (simp add: computeSecondsAngle_def default_behavior sample_sweep_def Let_def)

lemma default_sweep_bounds:
  "39 / 10000 < computeSecondsAngle (new_Clock None) sample_sweep \<and>
   computeSecondsAngle (new_Clock None) sample_sweep < 405 / 100000"
proof -
  define u :: real where "u = exp (ln (1 / 10) / (5 / 10) * (1 / 10))"
  from tenth_root_bounds [OF u_def] have u: "368 / 1000 < 1 - u" "1 - u < 37 / 100"
    by simp_all
  have p: "31 / 10 < pi" "pi < 32 / 10"
    using pi_bounds by simp_all
  have "(31 / 10) * (368 / 1000) < pi * (1 - u)"
    using p(1) u(1) by (intro mult_strict_mono) simp_all
  moreover have "pi * (1 - u) < (32 / 10) * (37 / 100)"
    using p(2) u by (intro mult_strict_mono) simp_all
  ultimately show ?thesis
    unfolding default_sweep_value u_def [symmetric] by simp
qed

text \<open>
  Claim C5, as stated: with the default second-hand behavior the seconds angle at
  \<open>t = 0.1\<close> is within \<open>0.0001\<close> of \<open>0.00441\<close>. It is not: the value is
  \<open>(2 pi / 58.5) * 0.1 * (1 - exp (ln 0.1 / 0.5 * 0.1))\<close>, which lies between \<open>0.0039\<close>
  and \<open>0.00405\<close>.
\<close>

theorem default_seconds_angle_not_near_441:
  "sub_minute sample_sweep = 1 / 10 \<and>
   \<not> \<bar>computeSecondsAngle (new_Clock None) sample_sweep - 441 / 100000\<bar> \<le> 1 / 10000"
  using default_sweep_bounds by (simp add: sub_minute_def sample_sweep_def)

text \<open>
  Claim C5, amended: with the default second-hand behavior the seconds angle at
  \<open>t = 0.1\<close> is within \<open>0.0001\<close> of \<open>0.00396\<close> radians.
\<close>

theorem default_seconds_angle_near_396:
  "sub_minute sample_sweep = 1 / 10 \<and>
   \<bar>computeSecondsAngle (new_Clock None) sample_sweep - 396 / 100000\<bar> \<le> 1 / 10000"
proof -
  have "sub_minute sample_sweep = 1 / 10"
    by (simp add: sub_minute_def sample_sweep_def)
  moreover from default_sweep_bounds
  have "39 / 10000 < computeSecondsAngle (new_Clock None) sample_sweep"
    and "computeSecondsAngle (new_Clock None) sample_sweep < 405 / 100000"
    by blast+
  then have "\<bar>computeSecondsAngle (new_Clock None) sample_sweep - 396 / 100000\<bar> \<le> 1 / 10000"
    by linarith
  ultimately show ?thesis
    by blast
qed

section \<open>Settling of the minute and hour hands\<close>

lemma exp_decay_tendsto_0:
  fixes l :: real
  assumes "l < 0"
  shows "((\<lambda>t. exp (l * t)) \<longlongrightarrow> 0) at_top"
proof -
  have "LIM t at_top. l * t :> at_bot"
    by (rule filterlim_tendsto_neg_mult_at_bot [OF tendsto_const assms filterlim_ident])
  then show ?thesis
    by (rule filterlim_compose [OF exp_at_bot])
qed

lemma linear_exp_decay_tendsto_0:
  fixes l :: real
  assumes "l < 0"
  shows "((\<lambda>t. t * exp (l * t)) \<longlongrightarrow> 0) at_top"
proof -
  have g: "LIM t at_top. (- l) * t :> at_top"
    by (rule filterlim_tendsto_pos_mult_at_top [OF tendsto_const _ filterlim_ident])
       (use assms in simp)
  have "((\<lambda>t. ((- l) * t) ^ 1 / exp ((- l) * t)) \<longlongrightarrow> 0) at_top"
    by (rule filterlim_compose [OF tendsto_power_div_exp_0 g])
  then have "((\<lambda>t. (- 1 / l) * (((- l) * t) ^ 1 / exp ((- l) * t))) \<longlongrightarrow> (- 1 / l) * 0) at_top"
    by (rule tendsto_mult_left)
  moreover have "(- 1 / l) * (((- l) * t) ^ 1 / exp ((- l) * t)) = t * exp (l * t)" for t
    using assms by (simp add: exp_minus field_simps)
  ultimately show ?thesis
    by simp
qed

lemma minutesAngle_deviation:
  assumes "0 < frequency b"
  shows "\<bar>minutesAngle b m t - pi / 30 * real m\<bar> \<le>
           pi / 30 * (1 + \<bar>decay_rate b\<bar> / (2 * pi * frequency b)) * exp (decay_rate b * t)"
proof -
  let ?l = "decay_rate b"
  let ?w = "2 * pi * frequency b"
  from assms have w: "0 < ?w"
    by simp
  have dev: "minutesAngle b m t - pi / 30 * real m =
               pi / 30 * exp (?l * t) * (?l / ?w * sin (?w * t) - cos (?w * t))"
    by (simp add: minutesAngle_def decay_rate_def Let_def)
  have "\<bar>?l / ?w * sin (?w * t)\<bar> = (\<bar>?l\<bar> / ?w) * \<bar>sin (?w * t)\<bar>"
    using assms by (simp add: abs_mult)
  also have "\<dots> \<le> (\<bar>?l\<bar> / ?w) * 1"
    using w by (intro mult_left_mono) simp_all
  finally have s: "\<bar>?l / ?w * sin (?w * t)\<bar> \<le> \<bar>?l\<bar> / ?w"
    by simp
  have c: "\<bar>cos (?w * t)\<bar> \<le> 1"
    by simp
  have "\<bar>?l / ?w * sin (?w * t) - cos (?w * t)\<bar> \<le> 1 + \<bar>?l\<bar> / ?w"
    using s c by linarith
  then have "pi / 30 * exp (?l * t) * \<bar>?l / ?w * sin (?w * t) - cos (?w * t)\<bar> \<le>
             pi / 30 * exp (?l * t) * (1 + \<bar>?l\<bar> / ?w)"
    by (intro mult_left_mono) simp_all
  moreover have "\<bar>pi / 30 * exp (?l * t) * (?l / ?w * sin (?w * t) - cos (?w * t))\<bar> =
                 pi / 30 * exp (?l * t) * \<bar>?l / ?w * sin (?w * t) - cos (?w * t)\<bar>"
    by (simp add: abs_mult)
  ultimately show ?thesis
    unfolding dev by (simp add: mult.commute mult.left_commute)
qed

lemma hoursAngle_deviation:
  assumes "valid_decay b" and "0 \<le> t"
  shows "\<bar>hoursAngle b m h t - pi / 360 * (real m + 60 * real h)\<bar> =
           pi / 360 * (1 - decay_rate b * t) * exp (decay_rate b * t)"
proof -
  let ?l = "decay_rate b"
  have dev: "hoursAngle b m h t - pi / 360 * (real m + 60 * real h) =
               pi / 360 * (?l * t - 1) * exp (?l * t)"
    by (simp add: hoursAngle_def decay_rate_def Let_def mult.commute)
  have "?l * t \<le> 0"
    by (rule mult_nonpos_nonneg [OF less_imp_le [OF decay_rate_neg [OF assms(1)]] assms(2)])
  then have "\<bar>?l * t - 1\<bar> = 1 - ?l * t"
    by simp
  then show ?thesis
    unfolding dev by (simp add: abs_mult)
qed

lemma hoursAngle_deviation_le:
  assumes "valid_decay b" and "0 \<le> t" and "t < 60"
  shows "\<bar>hoursAngle b m h t - pi / 360 * (real m + 60 * real h)\<bar> \<le>
           pi / 360 * (1 + 60 * \<bar>decay_rate b\<bar>) * exp (decay_rate b * t)"
proof -
  let ?l = "decay_rate b"
  have neg: "?l < 0"
    by (rule decay_rate_neg [OF assms(1)])
  have "(- ?l) * t \<le> (- ?l) * 60"
    using neg assms(3) by (intro mult_left_mono) simp_all
  then have "1 - ?l * t \<le> 1 + 60 * \<bar>?l\<bar>"
    using neg by simp
  then have "pi / 360 * (1 - ?l * t) \<le> pi / 360 * (1 + 60 * \<bar>?l\<bar>)"
    by (intro mult_left_mono) simp_all
  then have "pi / 360 * (1 - ?l * t) * exp (?l * t) \<le>
             pi / 360 * (1 + 60 * \<bar>?l\<bar>) * exp (?l * t)"
    by (intro mult_right_mono) simp_all
  then show ?thesis
    by (simp only: hoursAngle_deviation [OF assms(1,2)])
qed

lemma minutesAngle_settles:
  assumes "valid_minute_hand b"
  shows "(minutesAngle b m \<longlongrightarrow> pi / 30 * real m) at_top"
proof -
  let ?C = "pi / 30 * (1 + \<bar>decay_rate b\<bar> / (2 * pi * frequency b))"
  from assms have neg: "decay_rate b < 0" and f: "0 < frequency b"
    by (simp_all add: valid_minute_hand_def decay_rate_neg)
  have "((\<lambda>t. ?C * exp (decay_rate b * t)) \<longlongrightarrow> ?C * 0) at_top"
    by (rule tendsto_mult_left [OF exp_decay_tendsto_0 [OF neg]])
  then have up: "((\<lambda>t. ?C * exp (decay_rate b * t)) \<longlongrightarrow> 0) at_top"
    by simp
  have "((\<lambda>t. \<bar>minutesAngle b m t - pi / 30 * real m\<bar>) \<longlongrightarrow> 0) at_top"
  proof (rule tendsto_sandwich [OF _ _ tendsto_const up])
    show "\<forall>\<^sub>F t in at_top. 0 \<le> \<bar>minutesAngle b m t - pi / 30 * real m\<bar>"
      by simp
    show "\<forall>\<^sub>F t in at_top. \<bar>minutesAngle b m t - pi / 30 * real m\<bar> \<le>
            ?C * exp (decay_rate b * t)"
      using minutesAngle_deviation [OF f] by simp
  qed
  then have "((\<lambda>t. minutesAngle b m t - pi / 30 * real m) \<longlongrightarrow> 0) at_top"
    by (simp only: tendsto_rabs_zero_iff)
  then show ?thesis
    by (simp only: LIM_zero_iff)
qed

lemma hoursAngle_settles:
  assumes "valid_decay b"
  shows "(hoursAngle b m h \<longlongrightarrow> pi / 360 * (real m + 60 * real h)) at_top"
proof -
  let ?l = "decay_rate b"
  have neg: "?l < 0"
    by (rule decay_rate_neg [OF assms])
  have eq: "hoursAngle b m h =
          (\<lambda>t. pi / 360 * (real m + 60 * real h) +
                 pi / 360 * (?l * (t * exp (?l * t)) - exp (?l * t)))"
    by (rule ext) (simp add: hoursAngle_def decay_rate_def Let_def algebra_simps)
  have "((\<lambda>t. pi / 360 * (real m + 60 * real h) +
                 pi / 360 * (?l * (t * exp (?l * t)) - exp (?l * t))) \<longlongrightarrow>
          pi / 360 * (real m + 60 * real h) + pi / 360 * (?l * 0 - 0)) at_top"
    by (intro tendsto_intros linear_exp_decay_tendsto_0 [OF neg] exp_decay_tendsto_0 [OF neg])
  then show ?thesis
    unfolding eq by simp
qed

text \<open>
  Claim C8. With parameters in range, the minutes angle and the hours angle settle on
  their targets \<open>(pi / 30) * m\<close> and \<open>(pi / 360) * (m + 60 * h)\<close>: for a time sample with
  \<open>t\<close> in \<open>[0, 60)\<close> the deviation of what the code returns is at most a constant times
  \<open>exp (lam * t)\<close>, that envelope tends to \<open>0\<close> as \<open>t\<close> grows, and so do the deviations of
  the two functions of \<open>t\<close>.
\<close>

theorem minutes_hours_settle:
  fixes this :: Clock and now :: Date
  defines "bm \<equiv> minute_hand (this_behavior this)"
  defines "bh \<equiv> hour_hand (this_behavior this)"
  defines "t \<equiv> sub_minute now"
  defines "m \<equiv> getMinutes now"
  defines "h \<equiv> getHours now"
  assumes vm: "valid_minute_hand bm" and vh: "valid_decay bh" and vt: "valid_time now"
  shows "\<bar>computeMinutesAngle this now - pi / 30 * real m\<bar> \<le>
           pi / 30 * (1 + \<bar>decay_rate bm\<bar> / (2 * pi * frequency bm)) *
           exp (decay_rate bm * t) \<and>
         \<bar>computeHoursAngle this now - pi / 360 * (real m + 60 * real h)\<bar> \<le>
           pi / 360 * (1 + 60 * \<bar>decay_rate bh\<bar>) * exp (decay_rate bh * t) \<and>
         ((\<lambda>s. exp (decay_rate bm * s)) \<longlongrightarrow> 0) at_top \<and>
         ((\<lambda>s. exp (decay_rate bh * s)) \<longlongrightarrow> 0) at_top \<and>
         (minutesAngle bm m \<longlongrightarrow> pi / 30 * real m) at_top \<and>
         (hoursAngle bh m h \<longlongrightarrow> pi / 360 * (real m + 60 * real h)) at_top"
proof -
  from vm have f: "0 < frequency bm" and nm: "decay_rate bm < 0"
    by (simp_all add: valid_minute_hand_def decay_rate_neg)
  from vh have nh: "decay_rate bh < 0"
    by (rule decay_rate_neg)
  from vt have t: "0 \<le> t" "t < 60"
    unfolding t_def by (simp_all add: sub_minute_range)
  have "\<bar>computeMinutesAngle this now - pi / 30 * real m\<bar> \<le>
           pi / 30 * (1 + \<bar>decay_rate bm\<bar> / (2 * pi * frequency bm)) *
           exp (decay_rate bm * t)"
    unfolding computeMinutesAngle_eq bm_def [symmetric] m_def [symmetric] t_def [symmetric]
    by (rule minutesAngle_deviation [OF f])
  moreover have "\<bar>computeHoursAngle this now - pi / 360 * (real m + 60 * real h)\<bar> \<le>
           pi / 360 * (1 + 60 * \<bar>decay_rate bh\<bar>) * exp (decay_rate bh * t)"
    unfolding computeHoursAngle_eq bh_def [symmetric] m_def [symmetric] h_def [symmetric]
      t_def [symmetric]
    by (rule hoursAngle_deviation_le [OF vh t])
  moreover note exp_decay_tendsto_0 [OF nm] exp_decay_tendsto_0 [OF nh]
    minutesAngle_settles [OF vm, of m] hoursAngle_settles [OF vh, of m h]
  ultimately show ?thesis
    by blast
qed

theorem minutes_hours_settle_witness:
  "valid_minute_hand (minute_hand (this_behavior (new_Clock None))) \<and>
   valid_decay (hour_hand (this_behavior (new_Clock None))) \<and>
   valid_time sample_pause \<and>
   \<bar>computeMinutesAngle (new_Clock None) sample_pause - pi / 30 * 8\<bar> \<le>
     pi / 30 * (1 + \<bar>ln (1 / 10) / (3 / 10)\<bar> / (2 * pi * 6)) *
     exp (ln (1 / 10) / (3 / 10) * (5925 / 100)) \<and>
   \<bar>computeHoursAngle (new_Clock None) sample_pause - pi / 360 * (8 + 60 * 10)\<bar> \<le>
     pi / 360 * (1 + 60 * \<bar>ln (1 / 10) / 1\<bar>) * exp (ln (1 / 10) / 1 * (5925 / 100))"
proof -
  have m: "valid_minute_hand (minute_hand (this_behavior (new_Clock None)))"
    by (simp add: default_behavior valid_minute_hand_def valid_decay_def)
  have h: "valid_decay (hour_hand (this_behavior (new_Clock None)))"
    by (simp add: default_behavior valid_decay_def)
  have t: "valid_time sample_pause"
    by (simp add: valid_time_def sample_pause_def)
  have s: "sub_minute sample_pause = 5925 / 100" "getMinutes sample_pause = 8"
    "getHours sample_pause = 10"
    by (simp_all add: sub_minute_def sample_pause_def)
  have r: "decay_rate (minute_hand (this_behavior (new_Clock None))) = ln (1 / 10) / (3 / 10)"
    "decay_rate (hour_hand (this_behavior (new_Clock None))) = ln (1 / 10) / 1"
    "frequency (minute_hand (this_behavior (new_Clock None))) = 6"
    by (simp_all add: decay_rate_def default_behavior)
  note inst = minutes_hours_settle [OF m h t]
  from inst have
    "\<bar>computeMinutesAngle (new_Clock None) sample_pause - pi / 30 * 8\<bar> \<le>
       pi / 30 * (1 + \<bar>ln (1 / 10) / (3 / 10)\<bar> / (2 * pi * 6)) *
       exp (ln (1 / 10) / (3 / 10) * (5925 / 100))"
    unfolding s r by simp
  moreover from inst have
    "\<bar>computeHoursAngle (new_Clock None) sample_pause - pi / 360 * (8 + 60 * 10)\<bar> \<le>
       pi / 360 * (1 + 60 * \<bar>ln (1 / 10) / 1\<bar>) * exp (ln (1 / 10) / 1 * (5925 / 100))"
    unfolding s r by simp
  ultimately show ?thesis
    using m h t by blast
qed

end
